theory Spec2Isabelle
  imports Complex_Main "HOL-Library.AList"
begin

section \<open>Values and exceptions\<close>

text \<open>
  The controller of \<^verbatim>\<open>ray/serve/controller.py\<close> is modelled by explicit state passing.
  A handler takes the controller and returns its outcome together with the controller
  it leaves behind, so that a raise still shows the mutations made before it.
  Python dictionaries that the source iterates over are association lists in
  insertion order; dictionaries that are only indexed are maps.
\<close>

type_synonym BackendTag = string
type_synonym EndpointTag = string
type_synonym ReplicaTag = string
type_synonym NodeId = string
type_synonym GoalId = nat

text \<open>
  The exceptions the controller raises or catches. \<open>Exception\<close> stands for any other
  instance of Python's \<^verbatim>\<open>Exception\<close>, \<open>BaseException\<close> for a raised object that is
  not one (\<^verbatim>\<open>KeyboardInterrupt\<close>, \<^verbatim>\<open>SystemExit\<close>), which \<^verbatim>\<open>except Exception\<close>
  lets through.
\<close>

datatype exn =
    ValueError string
  | KeyError string
  | AssertionError
  | Exception string
  | BaseException string

fun is_Exception :: "exn \<Rightarrow> bool" where
  "is_Exception (BaseException m) = False"
| "is_Exception e = True"

definition quoted :: "string \<Rightarrow> string" where
  "quoted s = CHR 0x27 # s @ [CHR 0x27]"

text \<open>\<^verbatim>\<open>str(e)\<close>, as the f-strings of the control loop print an exception.\<close>

fun str_exn :: "exn \<Rightarrow> string" where
  "str_exn (ValueError m) = m"
| "str_exn (KeyError m) = quoted m"
| "str_exn AssertionError = []"
| "str_exn (Exception m) = m"
| "str_exn (BaseException m) = m"

section \<open>Data model\<close>

text \<open>
  An actor handle. The node the actor runs on is kept so that properties about a node's
  replicas can be stated; the handle does not expose it and the source never reads it.
\<close>

datatype ActorHandle = ActorHandle (actor_id: nat) (actor_node: string)

datatype pyvalue = PyNone | PyBool bool | PyInt int | PyStr string

text \<open>
  \<^verbatim>\<open>BackendConfig\<close> is a pydantic model whose declaration is not part of the source read
  here, so its fields are kept general: the value of every field, and the set of fields
  that were set explicitly (pydantic's \<^verbatim>\<open>__fields_set__\<close>).
\<close>

record BackendConfig =
  field_values :: "string \<rightharpoonup> pyvalue"
  fields_set :: "string set"

text \<open>\<^verbatim>\<open>config.dict(exclude_unset=True)\<close>: the explicitly set fields only.\<close>

definition dict_exclude_unset :: "BackendConfig \<Rightarrow> (string \<rightharpoonup> pyvalue)" where
  "dict_exclude_unset c = field_values c |` fields_set c"

text \<open>\<^verbatim>\<open>config.copy(update=u)\<close>: a copy whose fields named in \<open>u\<close> take the values of \<open>u\<close>.\<close>

definition copy_update :: "BackendConfig \<Rightarrow> (string \<rightharpoonup> pyvalue) \<Rightarrow> BackendConfig" where
  "copy_update c u =
     \<lparr>field_values = field_values c ++ u, fields_set = fields_set c \<union> dom u\<rparr>"

text \<open>
  The user's workload: a class, with the names \<^verbatim>\<open>inspect.getmembers(cls, inspect.isfunction)\<close>
  lists for it (in that order), or anything else.
\<close>

datatype BackendDef = Class_def string "string list" | Function_def string

record ReplicaConfig =
  backend_def :: BackendDef

text \<open>
  Modelled from the spec: \<^verbatim>\<open>create_backend_replica\<close> of \<^verbatim>\<open>backend_worker.py\<close> is missing;
  the spec says it wraps the user workload so that it can run as a managed replica.
\<close>

datatype worker_class = Backend_replica BackendDef

definition create_backend_replica :: "BackendDef \<Rightarrow> worker_class" where
  "create_backend_replica d = Backend_replica d"

record BackendInfo =
  worker_class :: worker_class
  version :: "string option"
  backend_config :: BackendConfig
  replica_config :: ReplicaConfig

text \<open>
  The constant \<^verbatim>\<open>ALL_HTTP_METHODS\<close> of \<^verbatim>\<open>constants.py\<close> is missing; it is kept symbolic.
\<close>

datatype http_methods = ALL_HTTP_METHODS | Http_methods "string list"

text \<open>
  \<^verbatim>\<open>EndpointInfo\<close>: a field the caller does not pass keeps the default of the (missing)
  declaration, written \<open>None\<close>.
\<close>

record EndpointInfo =
  http_methods :: http_methods
  route :: "string option"
  python_methods :: "string list option"
  legacy :: "bool option"

record TrafficPolicy =
  traffic_dict :: "(BackendTag \<times> real) list"
  shadow_dict :: "(BackendTag \<times> real) list"

text \<open>\<^verbatim>\<open>TrafficPolicy(traffic_dict)\<close>: a policy without shadow targets.\<close>

definition new_TrafficPolicy :: "(BackendTag \<times> real) list \<Rightarrow> TrafficPolicy" where
  "new_TrafficPolicy d = \<lparr>traffic_dict = d, shadow_dict = []\<rparr>"

section \<open>Routing State\<close>

text \<open>
  Modelled from the spec: the class \<^verbatim>\<open>EndpointState\<close> of \<^verbatim>\<open>endpoint_state.py\<close> is missing.
  The spec has it own the mapping from endpoint name to route, methods and traffic
  policy, with operations create, update, delete, list and get-route.
\<close>

record EndpointState =
  endpoints :: "(EndpointTag \<times> EndpointInfo \<times> TrafficPolicy) list"

text \<open>
  One value of the dictionary \<^verbatim>\<open>get_endpoints()\<close> returns; the controller reads its keys
  \<^verbatim>\<open>"traffic"\<close> and \<^verbatim>\<open>"shadows"\<close>.
\<close>

record endpoint_dict =
  ed_route :: "string option"
  ed_methods :: http_methods
  ed_traffic :: "(BackendTag \<times> real) list"
  ed_shadows :: "(BackendTag \<times> real) list"

definition endpoint_dict_of :: "EndpointInfo \<times> TrafficPolicy \<Rightarrow> endpoint_dict" where
  "endpoint_dict_of x =
     \<lparr>ed_route = route (fst x), ed_methods = http_methods (fst x),
      ed_traffic = traffic_dict (snd x), ed_shadows = shadow_dict (snd x)\<rparr>"

text \<open>Modelled from the spec: \<^verbatim>\<open>EndpointState.get_endpoints\<close> is missing; the spec's \<open>list()\<close>.\<close>

definition EndpointState_get_endpoints ::
  "EndpointState \<Rightarrow> (EndpointTag \<times> endpoint_dict) list" where
  "EndpointState_get_endpoints es = map (\<lambda>(e, x). (e, endpoint_dict_of x)) (endpoints es)"

text \<open>
  Modelled from the spec: \<^verbatim>\<open>EndpointState.create_endpoint\<close> is missing; the spec says it
  records EndpointInfo and TrafficPolicy under the endpoint's name.
\<close>

definition EndpointState_create_endpoint ::
  "EndpointTag \<Rightarrow> EndpointInfo \<Rightarrow> TrafficPolicy \<Rightarrow> EndpointState \<Rightarrow> EndpointState" where
  "EndpointState_create_endpoint e info policy es =
     es\<lparr>endpoints := AList.update e (info, policy) (endpoints es)\<rparr>"

text \<open>
  Modelled from the spec: \<^verbatim>\<open>EndpointState.update_endpoint\<close> is missing; the spec's
  \<open>update(endpoint, EndpointInfo, TrafficPolicy)\<close>, which installs both.
\<close>

definition EndpointState_update_endpoint ::
  "EndpointTag \<Rightarrow> EndpointInfo \<Rightarrow> TrafficPolicy \<Rightarrow> EndpointState \<Rightarrow> EndpointState" where
  "EndpointState_update_endpoint e info policy es =
     es\<lparr>endpoints := AList.update e (info, policy) (endpoints es)\<rparr>"


text \<open>
  Modelled from the spec: \<^verbatim>\<open>EndpointState.get_endpoint_route\<close> is missing; the spec's
  \<open>get_route(endpoint) -> string|absent\<close>.
\<close>

definition EndpointState_get_endpoint_route :: "EndpointState \<Rightarrow> EndpointTag \<Rightarrow> string option" where
  "EndpointState_get_endpoint_route es e =
     (case map_of (endpoints es) e of None \<Rightarrow> None | Some x \<Rightarrow> route (fst x))"

section \<open>Workload State\<close>

text \<open>
  Modelled from the spec: the class \<^verbatim>\<open>BackendState\<close> of \<^verbatim>\<open>backend_state.py\<close> is missing.
  The spec has it own the mapping from backend name to its description, the live
  replicas, and the target replica counts, which the controller adjusts through the
  attribute \<^verbatim>\<open>_target_replicas\<close>. Goal identifiers are issued in sequence, never reused.
\<close>

record BackendState =
  backends :: "(BackendTag \<times> BackendInfo) list"
  target_replicas :: "BackendTag \<rightharpoonup> int"
  running_replica_handles :: "(BackendTag \<times> (ReplicaTag \<times> ActorHandle) list) list"
  goals_issued :: nat

text \<open>Modelled from the spec: \<^verbatim>\<open>BackendState.get_backend\<close> is missing; \<open>get(tag) -> BackendInfo|absent\<close>.\<close>

definition BackendState_get_backend :: "BackendState \<Rightarrow> BackendTag \<Rightarrow> BackendInfo option" where
  "BackendState_get_backend bs tag = map_of (backends bs) tag"

text \<open>
  Modelled from the spec: \<^verbatim>\<open>BackendState.deploy_backend\<close> is missing; the spec says the
  description is created or replaced atomically and a GoalId is returned.
\<close>

definition BackendState_deploy_backend ::
  "BackendTag \<Rightarrow> BackendInfo \<Rightarrow> BackendState \<Rightarrow> GoalId option \<times> BackendState" where
  "BackendState_deploy_backend tag info bs =
     (Some (goals_issued bs),
      bs\<lparr>backends := AList.update tag info (backends bs), goals_issued := Suc (goals_issued bs)\<rparr>)"

text \<open>
  Modelled from the spec: \<^verbatim>\<open>BackendState.delete_backend\<close> is missing; the spec's
  \<open>delete(tag, force_kill) -> GoalId|absent\<close>, which requests teardown of a registered
  backend and removes its tag.
\<close>

definition BackendState_delete_backend ::
  "BackendTag \<Rightarrow> bool \<Rightarrow> BackendState \<Rightarrow> GoalId option \<times> BackendState" where
  "BackendState_delete_backend tag force_kill bs =
     (if map_of (backends bs) tag = None then (None, bs)
      else (Some (goals_issued bs),
            bs\<lparr>backends := AList.delete tag (backends bs),
               goals_issued := Suc (goals_issued bs)\<rparr>))"

text \<open>
  Modelled from the spec: \<^verbatim>\<open>BackendState.get_running_replica_handles\<close> is missing; the
  spec's \<open>get_running_replicas()\<close>, backend to replica to handle.
\<close>

definition BackendState_get_running_replica_handles ::
  "BackendState \<Rightarrow> (BackendTag \<times> (ReplicaTag \<times> ActorHandle) list) list" where
  "BackendState_get_running_replica_handles bs = running_replica_handles bs"

section \<open>HTTP Fleet State\<close>

text \<open>
  Modelled from the spec: the class \<^verbatim>\<open>HTTPState\<close> of \<^verbatim>\<open>http_state.py\<close> is missing. The
  spec has it own one proxy per serving node. Its \<^verbatim>\<open>update\<close> and
  \<^verbatim>\<open>ensure_http_route_exists\<close> are arguments of the handlers that call them.
\<close>

record HTTPState =
  proxy_actors :: "(NodeId \<times> ActorHandle) list"

section \<open>The controller\<close>

text \<open>What a timer started by the preemption pipeline will call.\<close>

datatype callback =
    Graceful_shutdown_before_shutoff "ActorHandle list"
  | Rescale_after_warning_expires "(BackendTag \<times> int) list"

text \<open>The effects of the controller that leave its state: in the order they happen.\<close>

datatype effect =
    Write_lock_acquire
  | Write_lock_release
  | Logger_error string
  | Asyncio_sleep real
  | Timer_start real callback
  | Drain_pending_queries ActorHandle
  | Ensure_http_route_exists EndpointTag real

record ServeController =
  http_state :: HTTPState
  endpoint_state :: EndpointState
  backend_state :: BackendState
  effects :: "effect list"

definition emit :: "effect \<Rightarrow> ServeController \<Rightarrow> ServeController" where
  "emit x s = s\<lparr>effects := effects s @ [x]\<rparr>"

text \<open>
  \<^verbatim>\<open>async with self.write_lock:\<close> the lock is released when the block returns and when it
  raises.
\<close>

definition with_write_lock ::
  "(ServeController \<Rightarrow> (exn + 'a) \<times> ServeController) \<Rightarrow> ServeController
     \<Rightarrow> (exn + 'a) \<times> ServeController" where
  "with_write_lock body s =
     (case body (emit Write_lock_acquire s) of (r, s') \<Rightarrow> (r, emit Write_lock_release s'))"

subsection \<open>delete_backend\<close>

text \<open>\<^verbatim>\<open>backend_tag in d\<close> for a dictionary \<open>d\<close>.\<close>

definition has_key :: "'k \<Rightarrow> ('k \<times> 'v) list \<Rightarrow> bool" where
  "has_key k d = (k \<in> set (map fst d))"

text \<open>
  The loop of \<^verbatim>\<open>delete_backend\<close> over \<^verbatim>\<open>get_endpoints().items()\<close>: the first endpoint
  that uses the backend, if any.
\<close>

fun used_by_endpoint :: "BackendTag \<Rightarrow> (EndpointTag \<times> endpoint_dict) list \<Rightarrow> EndpointTag option" where
  "used_by_endpoint backend_tag [] = None"
| "used_by_endpoint backend_tag ((endpoint, info) # rest) =
     (if has_key backend_tag (ed_traffic info) \<or> has_key backend_tag (ed_shadows info)
      then Some endpoint
      else used_by_endpoint backend_tag rest)"

definition backend_in_use_msg :: "BackendTag \<Rightarrow> EndpointTag \<Rightarrow> string" where
  "backend_in_use_msg backend_tag endpoint =
     ''Backend '' @ quoted backend_tag @ '' is used by endpoint '' @ quoted endpoint
       @ '' and cannot be deleted. Please remove the backend from all endpoints and try again.''"

definition delete_backend ::
  "BackendTag \<Rightarrow> bool \<Rightarrow> ServeController \<Rightarrow> (exn + GoalId option) \<times> ServeController" where
  "delete_backend backend_tag force_kill =
     with_write_lock (\<lambda>s.
       case used_by_endpoint backend_tag (EndpointState_get_endpoints (endpoint_state s)) of
         Some endpoint \<Rightarrow> (Inl (ValueError (backend_in_use_msg backend_tag endpoint)), s)
       | None \<Rightarrow>
           (case BackendState_delete_backend backend_tag force_kill (backend_state s) of
              (goal, bs) \<Rightarrow> (Inr goal, s\<lparr>backend_state := bs\<rparr>)))"

subsection \<open>create_endpoint\<close>

definition unregistered_msg :: "BackendTag \<Rightarrow> string" where
  "unregistered_msg backend =
     ''Attempted to assign traffic to a backend '' @ quoted backend
       @ '' that is not registered.''"

text \<open>\<^verbatim>\<open>_validate_traffic_dict\<close>: the exception raised, if any.\<close>

fun validate_traffic_dict :: "BackendState \<Rightarrow> (BackendTag \<times> real) list \<Rightarrow> exn option" where
  "validate_traffic_dict bs [] = None"
| "validate_traffic_dict bs ((backend, w) # rest) =
     (if BackendState_get_backend bs backend = None
      then Some (ValueError (unregistered_msg backend))
      else validate_traffic_dict bs rest)"

text \<open>The block of \<^verbatim>\<open>create_endpoint\<close> that runs under the write lock.\<close>

definition create_endpoint_locked ::
  "EndpointTag \<Rightarrow> (BackendTag \<times> real) list \<Rightarrow> string option \<Rightarrow> http_methods
     \<Rightarrow> ServeController \<Rightarrow> (exn + unit) \<times> ServeController" where
  "create_endpoint_locked endpoint td rt methods s =
     (case validate_traffic_dict (backend_state s) td of
        Some e \<Rightarrow> (Inl e, s)
      | None \<Rightarrow>
          (Inr (),
           s\<lparr>endpoint_state :=
               EndpointState_create_endpoint endpoint
                 \<lparr>http_methods = methods, route = rt, python_methods = None, legacy = None\<rparr>
                 (new_TrafficPolicy td) (endpoint_state s)\<rparr>))"

text \<open>
  \<^verbatim>\<open>create_endpoint\<close>. The argument \<open>ensure\<close> is \<^verbatim>\<open>HTTPState.ensure_http_route_exists\<close>,
  which is missing: given the endpoint and the timeout it returns or raises, and may
  change the HTTP fleet state.
\<close>

definition create_endpoint ::
  "(EndpointTag \<Rightarrow> real \<Rightarrow> HTTPState \<Rightarrow> exn option \<times> HTTPState)
     \<Rightarrow> EndpointTag \<Rightarrow> (BackendTag \<times> real) list \<Rightarrow> string option \<Rightarrow> http_methods
     \<Rightarrow> ServeController \<Rightarrow> (exn + unit) \<times> ServeController" where
  "create_endpoint ensure endpoint td rt methods s =
     (case with_write_lock (create_endpoint_locked endpoint td rt methods) s of
        (Inl e, s1) \<Rightarrow> (Inl e, s1)
      | (Inr u, s1) \<Rightarrow>
          (case ensure endpoint 30 (http_state s1) of
             (r, h) \<Rightarrow>
               ((case r of Some e \<Rightarrow> Inl e | None \<Rightarrow> Inr ()),
                (emit (Ensure_http_route_exists endpoint 30) s1)\<lparr>http_state := h\<rparr>)))"

subsection \<open>update_backend_config\<close>

definition update_backend_config ::
  "BackendTag \<Rightarrow> BackendConfig \<Rightarrow> ServeController \<Rightarrow> (exn + GoalId option) \<times> ServeController" where
  "update_backend_config backend_tag config_options =
     with_write_lock (\<lambda>s.
       case BackendState_get_backend (backend_state s) backend_tag of
         None \<Rightarrow> (Inl (ValueError (''Backend '' @ backend_tag @ '' is not registered.'')), s)
       | Some existing_info \<Rightarrow>
           (case BackendState_deploy_backend backend_tag
                   \<lparr>worker_class = worker_class existing_info,
                    version = version existing_info,
                    backend_config =
                      copy_update (backend_config existing_info)
                        (dict_exclude_unset config_options),
                    replica_config = replica_config existing_info\<rparr>
                   (backend_state s) of
              (goal, bs) \<Rightarrow> (Inr goal, s\<lparr>backend_state := bs\<rparr>)))"

subsection \<open>deploy, delete_deployment, get_deployment_info\<close>

text \<open>\<^verbatim>\<open>route_prefix.startswith("/")\<close>\<close>

definition startswith_slash :: "string \<Rightarrow> bool" where
  "startswith_slash r = (case r of [] \<Rightarrow> False | c # cs \<Rightarrow> c = CHR ''/'')"

text \<open>The method names \<^verbatim>\<open>deploy\<close> collects when the workload is a class.\<close>

fun python_methods_of :: "BackendDef \<Rightarrow> string list" where
  "python_methods_of (Class_def n ms) = ms"
| "python_methods_of (Function_def n) = []"

definition deploy ::
  "string \<Rightarrow> BackendConfig \<Rightarrow> ReplicaConfig \<Rightarrow> string option \<Rightarrow> string option
     \<Rightarrow> ServeController \<Rightarrow> (exn + GoalId option) \<times> ServeController" where
  "deploy name cfg rcfg ver route_prefix s =
     (if (case route_prefix of None \<Rightarrow> False | Some r \<Rightarrow> \<not> startswith_slash r)
      then (Inl AssertionError, s)
      else
        with_write_lock (\<lambda>s.
          case BackendState_deploy_backend name
                 \<lparr>worker_class = create_backend_replica (backend_def rcfg),
                  version = ver, backend_config = cfg, replica_config = rcfg\<rparr>
                 (backend_state s) of
            (goal_id, bs) \<Rightarrow>
              (Inr goal_id,
               s\<lparr>backend_state := bs,
                  endpoint_state :=
                    EndpointState_update_endpoint name
                      \<lparr>http_methods = ALL_HTTP_METHODS, route = route_prefix,
                       python_methods = Some (python_methods_of (backend_def rcfg)),
                       legacy = Some False\<rparr>
                      (new_TrafficPolicy [(name, 1)]) (endpoint_state s)\<rparr>)) s)"


definition get_deployment_info ::
  "string \<Rightarrow> ServeController \<Rightarrow> (exn + BackendInfo \<times> string option) \<times> ServeController" where
  "get_deployment_info name s =
     (case BackendState_get_backend (backend_state s) name of
        None \<Rightarrow> (Inl (KeyError (''Deployment '' @ name @ '' does not exist.'')), s)
      | Some backend_info \<Rightarrow>
          (Inr (backend_info, EndpointState_get_endpoint_route (endpoint_state s) name), s))"

text \<open>\<^verbatim>\<open>get_all_endpoints\<close>\<close>

definition get_all_endpoints :: "ServeController \<Rightarrow> (EndpointTag \<times> endpoint_dict) list" where
  "get_all_endpoints s = EndpointState_get_endpoints (endpoint_state s)"

subsection \<open>The preemption pipeline\<close>

text \<open>
  \<^verbatim>\<open>_actor_handle_matches_node\<close> (the leading underscore of a Python name is dropped
  throughout): the source cannot tell where an actor runs and answers with the mock
  variable it is given.
\<close>

definition actor_handle_matches_node :: "string \<Rightarrow> ActorHandle \<Rightarrow> bool \<Rightarrow> bool" where
  "actor_handle_matches_node node_ip actor_handle mock_variable = mock_variable"

text \<open>The local variables of \<^verbatim>\<open>_handle_warning\<close> that its loops update.\<close>

record scan =
  target_backends :: "(BackendTag \<times> int) list"
  target_actors :: "ActorHandle list"
  mock_variable :: bool

text \<open>
  \<^verbatim>\<open>if backend not in target_backends: target_backends[backend] = 0\<close> followed by
  \<^verbatim>\<open>target_backends[backend] += 1\<close>
\<close>

definition count_replica :: "BackendTag \<Rightarrow> (BackendTag \<times> int) list \<Rightarrow> (BackendTag \<times> int) list" where
  "count_replica backend tb =
     (case map_of tb backend of
        None \<Rightarrow> AList.update backend (0 + 1) tb
      | Some n \<Rightarrow> AList.update backend (n + 1) tb)"

text \<open>The inner loop, over the replicas of one backend.\<close>

fun scan_pair :: "string \<Rightarrow> BackendTag \<Rightarrow> (ReplicaTag \<times> ActorHandle) list \<Rightarrow> scan \<Rightarrow> scan" where
  "scan_pair node_ip backend [] a = a"
| "scan_pair node_ip backend ((tag, actor_handle) # rest) a =
     scan_pair node_ip backend rest
       (if actor_handle_matches_node node_ip actor_handle (mock_variable a)
        then \<lparr>target_backends = count_replica backend (target_backends a),
              target_actors = target_actors a @ [actor_handle],
              mock_variable = False\<rparr>
        else a)"

text \<open>The outer loop, over the backends.\<close>

fun scan_backends ::
  "string \<Rightarrow> (BackendTag \<times> (ReplicaTag \<times> ActorHandle) list) list \<Rightarrow> scan \<Rightarrow> scan" where
  "scan_backends node_ip [] a = a"
| "scan_backends node_ip ((backend, pair) # rest) a =
     scan_backends node_ip rest (scan_pair node_ip backend pair a)"

text \<open>
  \<^verbatim>\<open>_target_replicas[target_backend] += num_replicas\<close> for every item; a missing key
  raises \<^verbatim>\<open>KeyError\<close> and keeps the additions already made.
\<close>

fun add_target_replicas ::
  "(BackendTag \<times> int) list \<Rightarrow> (BackendTag \<rightharpoonup> int) \<Rightarrow> exn option \<times> (BackendTag \<rightharpoonup> int)" where
  "add_target_replicas [] m = (None, m)"
| "add_target_replicas ((target_backend, num_replicas) # rest) m =
     (case m target_backend of
        None \<Rightarrow> (Some (KeyError target_backend), m)
      | Some v \<Rightarrow> add_target_replicas rest (m(target_backend \<mapsto> v + num_replicas)))"

text \<open>\<^verbatim>\<open>_target_replicas[target_backend] -= num_replicas\<close> for every item.\<close>

fun sub_target_replicas ::
  "(BackendTag \<times> int) list \<Rightarrow> (BackendTag \<rightharpoonup> int) \<Rightarrow> exn option \<times> (BackendTag \<rightharpoonup> int)" where
  "sub_target_replicas [] m = (None, m)"
| "sub_target_replicas ((target_backend, num_replicas) # rest) m =
     (case m target_backend of
        None \<Rightarrow> (Some (KeyError target_backend), m)
      | Some v \<Rightarrow> sub_target_replicas rest (m(target_backend \<mapsto> v - num_replicas)))"

definition set_target_replicas :: "(BackendTag \<rightharpoonup> int) \<Rightarrow> ServeController \<Rightarrow> ServeController" where
  "set_target_replicas m s = s\<lparr>backend_state := (backend_state s)\<lparr>target_replicas := m\<rparr>\<rparr>"

definition all_replica_handles ::
  "ServeController \<Rightarrow> (BackendTag \<times> (ReplicaTag \<times> ActorHandle) list) list" where
  "all_replica_handles s = BackendState_get_running_replica_handles (backend_state s)"

definition handle_warning ::
  "string \<Rightarrow> real \<Rightarrow> ServeController \<Rightarrow> (exn + unit) \<times> ServeController" where
  "handle_warning node_ip time_left s =
     (let a = scan_backends node_ip (all_replica_handles s)
                \<lparr>target_backends = [], target_actors = [], mock_variable = True\<rparr>
      in case add_target_replicas (target_backends a) (target_replicas (backend_state s)) of
           (Some e, m) \<Rightarrow> (Inl e, set_target_replicas m s)
         | (None, m) \<Rightarrow>
             (Inr (),
              emit (Timer_start time_left (Rescale_after_warning_expires (target_backends a)))
                (emit (Timer_start (time_left - 5)
                         (Graceful_shutdown_before_shutoff (target_actors a)))
                   (set_target_replicas m s))))"

fun graceful_shutdown_before_shutoff :: "ActorHandle list \<Rightarrow> ServeController \<Rightarrow> ServeController" where
  "graceful_shutdown_before_shutoff [] s = s"
| "graceful_shutdown_before_shutoff (actor_handle # rest) s =
     graceful_shutdown_before_shutoff rest (emit (Drain_pending_queries actor_handle) s)"

definition rescale_after_warning_expires ::
  "(BackendTag \<times> int) list \<Rightarrow> ServeController \<Rightarrow> (exn + unit) \<times> ServeController" where
  "rescale_after_warning_expires tb s =
     (case sub_target_replicas tb (target_replicas (backend_state s)) of
        (Some e, m) \<Rightarrow> (Inl e, set_target_replicas m s)
      | (None, m) \<Rightarrow> (Inr (), set_target_replicas m s))"

text \<open>What a timer does when it fires.\<close>

fun fire :: "callback \<Rightarrow> ServeController \<Rightarrow> (exn + unit) \<times> ServeController" where
  "fire (Graceful_shutdown_before_shutoff hs) s = (Inr (), graceful_shutdown_before_shutoff hs s)"
| "fire (Rescale_after_warning_expires tb) s = rescale_after_warning_expires tb s"

subsection \<open>The control loop\<close>

definition CONTROL_LOOP_PERIOD_S :: real where
  "CONTROL_LOOP_PERIOD_S = 1 / 10"

text \<open>
  \<^verbatim>\<open>try: ... except Exception as e: logger.error(f"{prefix}{e}")\<close> applied to the outcome
  \<open>r\<close> of the call in the \<^verbatim>\<open>try\<close>.
\<close>

definition except_Exception ::
  "string \<Rightarrow> exn option \<Rightarrow> ServeController \<Rightarrow> (exn + unit) \<times> ServeController" where
  "except_Exception prefix r s =
     (case r of
        None \<Rightarrow> (Inr (), s)
      | Some e \<Rightarrow>
          if is_Exception e then (Inr (), emit (Logger_error (prefix @ str_exn e)) s)
          else (Inl e, s))"

text \<open>
  One pass of the \<^verbatim>\<open>while True\<close> of \<^verbatim>\<open>run_control_loop\<close>. The arguments \<open>http_update\<close>
  and \<open>backend_update\<close> are \<^verbatim>\<open>HTTPState.update\<close> and \<^verbatim>\<open>BackendState.update\<close>, which
  are missing: each returns or raises, and leaves a state behind either way.
\<close>

definition control_loop_locked ::
  "(HTTPState \<Rightarrow> exn option \<times> HTTPState) \<Rightarrow> (BackendState \<Rightarrow> exn option \<times> BackendState)
     \<Rightarrow> ServeController \<Rightarrow> (exn + unit) \<times> ServeController" where
  "control_loop_locked http_update backend_update s =
     (case http_update (http_state s) of
        (r1, h) \<Rightarrow>
          (case except_Exception ''Exception updating HTTP state: '' r1 (s\<lparr>http_state := h\<rparr>) of
             (Inl e, s1) \<Rightarrow> (Inl e, s1)
           | (Inr u, s1) \<Rightarrow>
               (case backend_update (backend_state s1) of
                  (r2, b) \<Rightarrow>
                    except_Exception ''Exception updating backend state: '' r2
                      (s1\<lparr>backend_state := b\<rparr>))))"

definition control_loop_tick ::
  "(HTTPState \<Rightarrow> exn option \<times> HTTPState) \<Rightarrow> (BackendState \<Rightarrow> exn option \<times> BackendState)
     \<Rightarrow> ServeController \<Rightarrow> (exn + unit) \<times> ServeController" where
  "control_loop_tick http_update backend_update s =
     (case with_write_lock (control_loop_locked http_update backend_update) s of
        (Inl e, s1) \<Rightarrow> (Inl e, s1)
      | (Inr u, s1) \<Rightarrow> (Inr (), emit (Asyncio_sleep CONTROL_LOOP_PERIOD_S) s1))"

text \<open>
  \<^verbatim>\<open>run_control_loop\<close> has no exit but an exception. It is run for the passes listed: one
  pair per pass, what the two updates do during it. The result is the exception that
  ended the loop, or \<open>None\<close> when the loop is still running after the last pass listed.
\<close>

fun run_control_loop ::
  "((HTTPState \<Rightarrow> exn option \<times> HTTPState) \<times> (BackendState \<Rightarrow> exn option \<times> BackendState)) list
     \<Rightarrow> ServeController \<Rightarrow> exn option \<times> ServeController" where
  "run_control_loop [] s = (None, s)"
| "run_control_loop ((http_update, backend_update) # passes) s =
     (case control_loop_tick http_update backend_update s of
        (Inl e, s1) \<Rightarrow> (Some e, s1)
      | (Inr u, s1) \<Rightarrow> run_control_loop passes s1)"

subsection \<open>A controller started without a checkpoint\<close>

definition init :: ServeController where
  "init =
     \<lparr>http_state = \<lparr>proxy_actors = []\<rparr>,
      endpoint_state = \<lparr>endpoints = []\<rparr>,
      backend_state =
        \<lparr>backends = [], target_replicas = Map.empty, running_replica_handles = [],
         goals_issued = 0\<rparr>,
      effects = []\<rparr>"

subsection \<open>Concrete controllers\<close>

text \<open>A deployment \<open>d\<close> made on a fresh controller; the states below are reached from it.\<close>

definition demo_config :: BackendConfig where
  "demo_config =
     \<lparr>field_values = [''num_replicas'' \<mapsto> PyInt 1, ''max_concurrent_queries'' \<mapsto> PyInt 100],
      fields_set = {''num_replicas''}\<rparr>"

definition demo_replica_config :: ReplicaConfig where
  "demo_replica_config = \<lparr>backend_def = Class_def ''Model'' [''__call__'', ''__init__'']\<rparr>"

definition deployed :: ServeController where
  "deployed = snd (deploy ''d'' demo_config demo_replica_config (Some ''v1'') (Some ''/d'') init)"

text \<open>Options that set \<open>num_replicas\<close> only; the other field holds its default.\<close>

definition demo_options :: BackendConfig where
  "demo_options =
     \<lparr>field_values = [''num_replicas'' \<mapsto> PyInt 3, ''max_concurrent_queries'' \<mapsto> PyInt 8],
      fields_set = {''num_replicas''}\<rparr>"

text \<open>Two behaviours of the route wait: the route is reachable in time, or the wait expires.\<close>

definition ensure_reachable :: "EndpointTag \<Rightarrow> real \<Rightarrow> HTTPState \<Rightarrow> exn option \<times> HTTPState" where
  "ensure_reachable e timeout_s h = (None, h)"

definition ensure_timed_out :: "EndpointTag \<Rightarrow> real \<Rightarrow> HTTPState \<Rightarrow> exn option \<times> HTTPState" where
  "ensure_timed_out e timeout_s h = (Some (Exception ''TimeoutError''), h)"

text \<open>
  The replicas in the order the two loops of \<^verbatim>\<open>_handle_warning\<close> visit them, each with its
  backend.
\<close>

definition replica_items ::
  "(BackendTag \<times> (ReplicaTag \<times> ActorHandle) list) list \<Rightarrow> (BackendTag \<times> ActorHandle) list" where
  "replica_items handles =
     concat (map (\<lambda>(backend, pair). map (\<lambda>(tag, actor_handle). (backend, actor_handle)) pair) handles)"

text \<open>An update that lets no exception through that \<^verbatim>\<open>except Exception\<close> would not catch.\<close>

definition raises_only_Exception :: "('st \<Rightarrow> exn option \<times> 'st) \<Rightarrow> bool" where
  "raises_only_Exception f = (\<forall>x e. fst (f x) = Some e \<longrightarrow> is_Exception e)"

text \<open>
  The deployment \<open>d\<close> once three replicas run, all of them on the node \<open>10.0.0.1\<close>, with a
  target of three.
\<close>

definition three_replicas :: ServeController where
  "three_replicas =
     deployed\<lparr>backend_state := (backend_state deployed)
       \<lparr>target_replicas := [''d'' \<mapsto> 3],
        running_replica_handles :=
          [(''d'', [(''d#1'', ActorHandle 1 ''10.0.0.1''), (''d#2'', ActorHandle 2 ''10.0.0.1''),
                    (''d#3'', ActorHandle 3 ''10.0.0.1'')])]\<rparr>\<rparr>"

text \<open>Updates of the two reconciled components that raise, and that return after a change.\<close>

definition http_update_raises :: "HTTPState \<Rightarrow> exn option \<times> HTTPState" where
  "http_update_raises h = (Some (Exception ''proxy unreachable''), h)"

definition http_update_returns :: "HTTPState \<Rightarrow> exn option \<times> HTTPState" where
  "http_update_returns h = (None, h\<lparr>proxy_actors := [(''node1'', ActorHandle 7 ''10.0.0.1'')]\<rparr>)"

definition backend_update_raises :: "BackendState \<Rightarrow> exn option \<times> BackendState" where
  "backend_update_raises b = (Some (KeyError ''d''), b)"

definition backend_update_returns :: "BackendState \<Rightarrow> exn option \<times> BackendState" where
  "backend_update_returns b =
     (None, b\<lparr>running_replica_handles := [(''d'', [(''d#1'', ActorHandle 1 ''10.0.0.1'')])]\<rparr>)"

section \<open>Facts about the concrete controllers\<close>

lemma deployed_eq:
  "deployed =
     \<lparr>http_state = \<lparr>proxy_actors = []\<rparr>,
      endpoint_state =
        \<lparr>endpoints =
           [(''d'', \<lparr>http_methods = ALL_HTTP_METHODS, route = Some ''/d'',
                     python_methods = Some [''__call__'', ''__init__''], legacy = Some False\<rparr>,
                   \<lparr>traffic_dict = [(''d'', 1)], shadow_dict = []\<rparr>)]\<rparr>,
      backend_state =
        \<lparr>backends =
           [(''d'', \<lparr>worker_class = Backend_replica (Class_def ''Model'' [''__call__'', ''__init__'']),
                     version = Some ''v1'', backend_config = demo_config,
                     replica_config = demo_replica_config\<rparr>)],
         target_replicas = Map.empty, running_replica_handles = [], goals_issued = 1\<rparr>,
      effects = [Write_lock_acquire, Write_lock_release]\<rparr>"
  by (simp add: deployed_def deploy_def init_def with_write_lock_def emit_def
      BackendState_deploy_backend_def EndpointState_update_endpoint_def startswith_slash_def
      demo_replica_config_def new_TrafficPolicy_def create_backend_replica_def)

section \<open>Deleting a backend that is in use\<close>

lemma used_by_endpoint_Some:
  "used_by_endpoint B d \<noteq> None \<longleftrightarrow>
     (\<exists>(e, info) \<in> set d. has_key B (ed_traffic info) \<or> has_key B (ed_shadows info))"
  by (induction d) auto

text \<open>
  Claim C1. Whatever state the controller has reached: when some endpoint's traffic policy
  or shadow list has the backend tag \<open>B\<close> as a key, \<open>delete_backend B force_kill\<close> raises the
  \<^verbatim>\<open>ValueError\<close> that names an endpoint using \<open>B\<close>, and the Workload State and the Routing
  State (so the backends, the endpoints and their traffic policies) are those before
  the call.
\<close>

theorem delete_backend_referenced:
  assumes "(e, info, policy) \<in> set (endpoints (endpoint_state s))"
    and "has_key B (traffic_dict policy) \<or> has_key B (shadow_dict policy)"
  shows "(\<exists>endpoint. fst (delete_backend B force_kill s)
            = Inl (ValueError (backend_in_use_msg B endpoint)))
       \<and> backend_state (snd (delete_backend B force_kill s)) = backend_state s
       \<and> endpoint_state (snd (delete_backend B force_kill s)) = endpoint_state s
       \<and> get_all_endpoints (snd (delete_backend B force_kill s)) = get_all_endpoints s"
proof -
  let ?d = "EndpointState_get_endpoints (endpoint_state s)"
  have "(e, endpoint_dict_of (info, policy)) \<in> set ?d"
    using assms(1) by (force simp: EndpointState_get_endpoints_def)
  moreover have "has_key B (ed_traffic (endpoint_dict_of (info, policy)))
       \<or> has_key B (ed_shadows (endpoint_dict_of (info, policy)))"
    using assms(2) by (simp add: endpoint_dict_of_def)
  ultimately have "used_by_endpoint B ?d \<noteq> None"
    unfolding used_by_endpoint_Some by blast
  then obtain endpoint where u: "used_by_endpoint B ?d = Some endpoint" by blast
  then show ?thesis
    by (auto simp: delete_backend_def with_write_lock_def emit_def get_all_endpoints_def)
qed

theorem delete_backend_referenced_witness:
  "(\<exists>endpoint. fst (delete_backend ''d'' False deployed)
            = Inl (ValueError (backend_in_use_msg ''d'' endpoint)))
       \<and> backend_state (snd (delete_backend ''d'' False deployed)) = backend_state deployed
       \<and> endpoint_state (snd (delete_backend ''d'' False deployed)) = endpoint_state deployed
       \<and> get_all_endpoints (snd (delete_backend ''d'' False deployed)) = get_all_endpoints deployed"
proof -
  have h: "(''d'', \<lparr>http_methods = ALL_HTTP_METHODS, route = Some ''/d'',
        python_methods = Some [''__call__'', ''__init__''], legacy = Some False\<rparr>,
      \<lparr>traffic_dict = [(''d'', 1)], shadow_dict = []\<rparr>) \<in> set (endpoints (endpoint_state deployed))"
    by (simp add: deployed_eq)
  have k: "has_key ''d'' (traffic_dict \<lparr>traffic_dict = [(''d'', 1)], shadow_dict = []\<rparr>)
      \<or> has_key ''d'' (shadow_dict \<lparr>traffic_dict = [(''d'', 1::real)], shadow_dict = []\<rparr>)"
    by (simp add: has_key_def)
  from delete_backend_referenced [OF h k] show ?thesis .
qed

section \<open>Deleting a deployment\<close>




section \<open>Creating an endpoint over an unregistered backend\<close>

lemma validate_traffic_dict_Some:
  "(b, w) \<in> set td \<Longrightarrow> BackendState_get_backend bs b = None \<Longrightarrow>
     \<exists>b'. has_key b' td \<and> BackendState_get_backend bs b' = None
        \<and> validate_traffic_dict bs td = Some (ValueError (unregistered_msg b'))"
proof (induction td)
  case Nil
  then show ?case by simp
next
  case (Cons p td)
  obtain a v where p: "p = (a, v)" by (cases p)
  show ?case
  proof (cases "BackendState_get_backend bs a = None")
    case True
    then show ?thesis by (auto simp: p has_key_def intro!: exI [of _ a])
  next
    case False
    with Cons.prems p have "(b, w) \<in> set td" by auto
    from Cons.IH [OF this Cons.prems(2)] False show ?thesis
      by (auto simp: p has_key_def)
  qed
qed

lemma validate_traffic_dict_None:
  "validate_traffic_dict bs td = None \<longleftrightarrow>
     (\<forall>b. has_key b td \<longrightarrow> BackendState_get_backend bs b \<noteq> None)"
  by (induction td) (auto simp: has_key_def split: if_splits)

text \<open>
  Claim C4, as stated, fails in its last part: an endpoint of that name may exist already.
  On the controller that holds the deployment \<open>d\<close>, creating the endpoint \<open>d\<close> over the
  unregistered backend \<open>b1\<close> raises, and the endpoint \<open>d\<close> exists afterwards.
\<close>

theorem create_endpoint_existing_name_counterexample:
  "has_key ''b1'' [(''b1'', 1::real)]
   \<and> BackendState_get_backend (backend_state deployed) ''b1'' = None
   \<and> fst (create_endpoint ensure_reachable ''d'' [(''b1'', 1)] (Some ''/d'')
            (Http_methods [''GET'']) deployed)
        = Inl (ValueError (unregistered_msg ''b1''))
   \<and> has_key ''d'' (get_all_endpoints (snd (create_endpoint ensure_reachable ''d''
        [(''b1'', 1)] (Some ''/d'') (Http_methods [''GET'']) deployed)))"
  by (simp add: BackendState_get_backend_def deployed_eq get_all_endpoints_def
      EndpointState_get_endpoints_def has_key_def create_endpoint_def
      create_endpoint_locked_def with_write_lock_def emit_def)

text \<open>
  Claim C4, amended. When the traffic dictionary has a key that is not a registered
  backend, \<open>create_endpoint\<close> raises the \<^verbatim>\<open>ValueError\<close> for such a key before any mutation:
  Routing State, Workload State and HTTP Fleet State are unchanged, the lock was taken
  and released and the route wait never started. So an endpoint of that name exists
  afterwards exactly when one existed before; none exists when none did.
\<close>

theorem create_endpoint_unregistered:
  assumes "(b, w) \<in> set td" and "BackendState_get_backend (backend_state s) b = None"
  shows "(\<exists>b'. has_key b' td \<and> BackendState_get_backend (backend_state s) b' = None
             \<and> fst (create_endpoint ensure endpoint td rt methods s)
                 = Inl (ValueError (unregistered_msg b')))
       \<and> endpoint_state (snd (create_endpoint ensure endpoint td rt methods s)) = endpoint_state s
       \<and> backend_state (snd (create_endpoint ensure endpoint td rt methods s)) = backend_state s
       \<and> http_state (snd (create_endpoint ensure endpoint td rt methods s)) = http_state s
       \<and> effects (snd (create_endpoint ensure endpoint td rt methods s))
            = effects s @ [Write_lock_acquire, Write_lock_release]
       \<and> (has_key endpoint (get_all_endpoints (snd (create_endpoint ensure endpoint td rt methods s)))
            \<longleftrightarrow> has_key endpoint (get_all_endpoints s))"
proof -
  obtain b' where b': "has_key b' td" "BackendState_get_backend (backend_state s) b' = None"
    "validate_traffic_dict (backend_state s) td = Some (ValueError (unregistered_msg b'))"
    using validate_traffic_dict_Some [OF assms] by blast
  then show ?thesis
    by (auto simp: create_endpoint_def create_endpoint_locked_def with_write_lock_def emit_def
        get_all_endpoints_def)
qed

theorem create_endpoint_unregistered_witness:
  "(\<exists>b'. has_key b' [(''b1'', 1::real)]
        \<and> BackendState_get_backend (backend_state deployed) b' = None
        \<and> fst (create_endpoint ensure_reachable ''foo'' [(''b1'', 1)] (Some ''/foo'')
                 (Http_methods [''GET'']) deployed)
            = Inl (ValueError (unregistered_msg b')))
   \<and> \<not> has_key ''foo'' (get_all_endpoints (snd (create_endpoint ensure_reachable ''foo''
           [(''b1'', 1)] (Some ''/foo'') (Http_methods [''GET'']) deployed)))"
proof -
  have h: "(''b1'', 1) \<in> set [(''b1'', 1::real)]" by simp
  have k: "BackendState_get_backend (backend_state deployed) ''b1'' = None"
    by (simp add: BackendState_get_backend_def deployed_eq)
  have n: "\<not> has_key ''foo'' (get_all_endpoints deployed)"
    by (simp add: has_key_def get_all_endpoints_def EndpointState_get_endpoints_def deployed_eq)
  from create_endpoint_unregistered [OF h k, of ensure_reachable "''foo''" "Some ''/foo''"
      "Http_methods [''GET'']"] n
  show ?thesis by blast
qed

section \<open>Updating a backend's configuration\<close>

lemma merged_field:
  "field_values (copy_update c (dict_exclude_unset o')) f =
     (if f \<in> fields_set o' \<and> field_values o' f \<noteq> None then field_values o' f
      else field_values c f)"
  by (auto simp: copy_update_def dict_exclude_unset_def map_add_def restrict_map_def
      split: option.splits)

text \<open>
  Claim C8. \<open>update_backend_config tag opts\<close> raises a \<^verbatim>\<open>ValueError\<close> and changes neither
  Workload nor Routing State when \<open>tag\<close> is not registered. When \<open>tag\<close> is registered with
  \<open>existing\<close>, the description \<open>merged\<close> handed to \<open>deploy_backend\<close>, which is the one
  registered afterwards, has the worker class, version and replica config of \<open>existing\<close>,
  and each config field has the value of \<open>opts\<close> where \<open>opts\<close> sets the field explicitly and
  the value of \<open>existing\<close> otherwise.
\<close>

theorem update_backend_config_merge:
  "(BackendState_get_backend (backend_state s) tag = None \<longrightarrow>
      (\<exists>m. fst (update_backend_config tag opts s) = Inl (ValueError m))
      \<and> backend_state (snd (update_backend_config tag opts s)) = backend_state s
      \<and> endpoint_state (snd (update_backend_config tag opts s)) = endpoint_state s)
   \<and> (\<forall>existing. BackendState_get_backend (backend_state s) tag = Some existing \<longrightarrow>
        (\<exists>merged.
           update_backend_config tag opts s
             = (Inr (fst (BackendState_deploy_backend tag merged (backend_state s))),
                (emit Write_lock_release (emit Write_lock_acquire s))
                  \<lparr>backend_state := snd (BackendState_deploy_backend tag merged (backend_state s))\<rparr>)
           \<and> BackendState_get_backend
                 (backend_state (snd (update_backend_config tag opts s))) tag = Some merged
           \<and> worker_class merged = worker_class existing
           \<and> version merged = version existing
           \<and> replica_config merged = replica_config existing
           \<and> (\<forall>f. field_values (backend_config merged) f =
                 (if f \<in> fields_set opts \<and> field_values opts f \<noteq> None
                  then field_values opts f
                  else field_values (backend_config existing) f))))"
proof (intro conjI impI allI)
  fix existing
  assume ex: "BackendState_get_backend (backend_state s) tag = Some existing"
  let ?merged = "\<lparr>worker_class = worker_class existing, version = version existing,
      backend_config = copy_update (backend_config existing) (dict_exclude_unset opts),
      replica_config = replica_config existing\<rparr>"
  show "\<exists>merged.
           update_backend_config tag opts s
             = (Inr (fst (BackendState_deploy_backend tag merged (backend_state s))),
                (emit Write_lock_release (emit Write_lock_acquire s))
                  \<lparr>backend_state := snd (BackendState_deploy_backend tag merged (backend_state s))\<rparr>)
           \<and> BackendState_get_backend
                 (backend_state (snd (update_backend_config tag opts s))) tag = Some merged
           \<and> worker_class merged = worker_class existing
           \<and> version merged = version existing
           \<and> replica_config merged = replica_config existing
           \<and> (\<forall>f. field_values (backend_config merged) f =
                 (if f \<in> fields_set opts \<and> field_values opts f \<noteq> None
                  then field_values opts f
                  else field_values (backend_config existing) f))"
    apply (rule exI [of _ ?merged])
    using ex
    apply (simp add: update_backend_config_def with_write_lock_def emit_def
        BackendState_deploy_backend_def BackendState_get_backend_def update_conv merged_field)
    done
qed (simp_all add: update_backend_config_def with_write_lock_def emit_def)

theorem update_backend_config_merge_witness:
  "(\<exists>m. fst (update_backend_config ''x'' demo_options deployed) = Inl (ValueError m))
   \<and> (\<exists>merged.
         BackendState_get_backend
           (backend_state (snd (update_backend_config ''d'' demo_options deployed))) ''d''
           = Some merged
         \<and> version merged = Some ''v1''
         \<and> field_values (backend_config merged) ''num_replicas'' = Some (PyInt 3)
         \<and> field_values (backend_config merged) ''max_concurrent_queries'' = Some (PyInt 100))"
proof -
  have x: "BackendState_get_backend (backend_state deployed) ''x'' = None"
    by (simp add: BackendState_get_backend_def deployed_eq)
  have d: "BackendState_get_backend (backend_state deployed) ''d''
      = Some \<lparr>worker_class = Backend_replica (Class_def ''Model'' [''__call__'', ''__init__'']),
               version = Some ''v1'', backend_config = demo_config,
               replica_config = demo_replica_config\<rparr>"
    by (simp add: BackendState_get_backend_def deployed_eq)
  from update_backend_config_merge [of deployed "''x''" demo_options] x
  have 1: "\<exists>m. fst (update_backend_config ''x'' demo_options deployed) = Inl (ValueError m)"
    by blast
  from update_backend_config_merge [of deployed "''d''" demo_options] d
  obtain merged where m:
    "BackendState_get_backend
           (backend_state (snd (update_backend_config ''d'' demo_options deployed))) ''d''
           = Some merged"
    "version merged = Some ''v1''"
    "\<forall>f. field_values (backend_config merged) f =
                 (if f \<in> fields_set demo_options \<and> field_values demo_options f \<noteq> None
                  then field_values demo_options f
                  else field_values demo_config f)"
    by fastforce
  from m(3) have "field_values (backend_config merged) ''num_replicas'' = Some (PyInt 3)"
    "field_values (backend_config merged) ''max_concurrent_queries'' = Some (PyInt 100)"
    by (simp_all add: demo_options_def demo_config_def)
  with 1 m(1,2) show ?thesis by blast
qed

section \<open>The route prefix of a deployment\<close>

text \<open>
  Claim C9. A call of \<open>deploy\<close> with a route prefix that does not start with a slash fails
  the assertion and returns the controller it was given, whatever that is: nothing was
  read or changed, and no lock taken. With a prefix that starts with a slash, or with
  none, the call does not fail.
\<close>

theorem deploy_route_prefix_assertion:
  "(\<not> startswith_slash r \<longrightarrow> deploy name cfg rcfg ver (Some r) s = (Inl AssertionError, s))
   \<and> (startswith_slash r \<longrightarrow> (\<exists>goal. fst (deploy name cfg rcfg ver (Some r) s) = Inr goal))
   \<and> (\<exists>goal. fst (deploy name cfg rcfg ver None s) = Inr goal)"
  by (simp add: deploy_def with_write_lock_def BackendState_deploy_backend_def)

theorem deploy_route_prefix_assertion_witness:
  "\<not> startswith_slash ''d'' \<and> startswith_slash ''/d''
   \<and> deploy ''d'' demo_config demo_replica_config None (Some ''d'') init = (Inl AssertionError, init)
   \<and> (\<exists>goal. fst (deploy ''d'' demo_config demo_replica_config None (Some ''/d'') init) = Inr goal)"
  using deploy_route_prefix_assertion [of "''d''" "''d''" demo_config demo_replica_config None init]
    deploy_route_prefix_assertion [of "''/d''" "''d''" demo_config demo_replica_config None init]
  by (simp add: startswith_slash_def)

section \<open>Reading a deployment\<close>

text \<open>
  Claim C10. \<open>get_deployment_info name\<close> raises \<^verbatim>\<open>KeyError\<close> exactly when no backend \<open>name\<close>
  is registered, and raises nothing else; it leaves the controller as it was; and for a
  registered backend it returns its description paired with the route of the endpoint
  \<open>name\<close>.
\<close>

theorem get_deployment_info_KeyError:
  "((\<exists>m. fst (get_deployment_info name s) = Inl (KeyError m))
      \<longleftrightarrow> BackendState_get_backend (backend_state s) name = None)
   \<and> (\<forall>e. fst (get_deployment_info name s) = Inl e \<longrightarrow> (\<exists>m. e = KeyError m))
   \<and> snd (get_deployment_info name s) = s
   \<and> (\<forall>backend_info. BackendState_get_backend (backend_state s) name = Some backend_info \<longrightarrow>
         fst (get_deployment_info name s)
           = Inr (backend_info, EndpointState_get_endpoint_route (endpoint_state s) name))"
  by (auto simp: get_deployment_info_def split: option.splits)

theorem get_deployment_info_KeyError_witness:
  "fst (get_deployment_info ''d'' deployed)
     = Inr (\<lparr>worker_class = Backend_replica (Class_def ''Model'' [''__call__'', ''__init__'']),
               version = Some ''v1'', backend_config = demo_config,
               replica_config = demo_replica_config\<rparr>, Some ''/d'')
   \<and> (\<exists>m. fst (get_deployment_info ''e'' deployed) = Inl (KeyError m))
   \<and> snd (get_deployment_info ''d'' deployed) = deployed"
proof -
  have d: "BackendState_get_backend (backend_state deployed) ''d''
      = Some \<lparr>worker_class = Backend_replica (Class_def ''Model'' [''__call__'', ''__init__'']),
               version = Some ''v1'', backend_config = demo_config,
               replica_config = demo_replica_config\<rparr>"
    by (simp add: BackendState_get_backend_def deployed_eq)
  have e: "BackendState_get_backend (backend_state deployed) ''e'' = None"
    by (simp add: BackendState_get_backend_def deployed_eq)
  have r: "EndpointState_get_endpoint_route (endpoint_state deployed) ''d'' = Some ''/d''"
    by (simp add: EndpointState_get_endpoint_route_def deployed_eq)
  from get_deployment_info_KeyError [of "''d''" deployed]
    get_deployment_info_KeyError [of "''e''" deployed] d e r
  show ?thesis by simp
qed

section \<open>The preemption warning\<close>

lemma scan_pair_not_mock: "\<not> mock_variable a \<Longrightarrow> scan_pair node_ip backend pair a = a"
  by (induction pair) (auto simp: actor_handle_matches_node_def)

lemma scan_backends_not_mock: "\<not> mock_variable a \<Longrightarrow> scan_backends node_ip handles a = a"
  by (induction handles) (auto simp: scan_pair_not_mock)

lemma scan_pair_mock:
  "mock_variable a \<Longrightarrow>
   scan_pair node_ip backend pair a =
     (case pair of [] \<Rightarrow> a
      | (tag, h) # rest \<Rightarrow>
          \<lparr>target_backends = count_replica backend (target_backends a),
           target_actors = target_actors a @ [h], mock_variable = False\<rparr>)"
  by (cases pair) (auto simp: actor_handle_matches_node_def scan_pair_not_mock)

lemma scan_backends_mock:
  "scan_backends node_ip handles \<lparr>target_backends = [], target_actors = [], mock_variable = True\<rparr> =
     (case replica_items handles of
        [] \<Rightarrow> \<lparr>target_backends = [], target_actors = [], mock_variable = True\<rparr>
      | (backend, h) # rest \<Rightarrow>
          \<lparr>target_backends = [(backend, 1)], target_actors = [h], mock_variable = False\<rparr>)"
proof (induction handles)
  case Nil
  then show ?case by (simp add: replica_items_def)
next
  case (Cons p handles)
  obtain backend pair where p: "p = (backend, pair)" by (cases p)
  show ?case
  proof (cases pair)
    case Nil
    with Cons p show ?thesis by (simp add: replica_items_def)
  next
    case (Cons q rest)
    obtain tag h where q: "q = (tag, h)" by (cases q)
    show ?thesis
      by (simp add: p Cons q replica_items_def actor_handle_matches_node_def
          scan_pair_not_mock scan_backends_not_mock count_replica_def)
  qed
qed

text \<open>
  Claim C2, as stated, fails: the node test is a mock that accepts the first replica
  visited and no other. With three replicas of the backend \<open>d\<close> on the node of the
  warning and a target of three, the target becomes four, not six, and the drain timer
  holds one handle, not three.
\<close>

theorem handle_warning_three_replicas_counterexample:
  "map (\<lambda>(tag, h). actor_node h) (the (map_of (all_replica_handles three_replicas) ''d''))
     = [''10.0.0.1'', ''10.0.0.1'', ''10.0.0.1'']
   \<and> target_replicas (backend_state three_replicas) ''d'' = Some 3
   \<and> fst (handle_warning ''10.0.0.1'' 20 three_replicas) = Inr ()
   \<and> target_replicas (backend_state (snd (handle_warning ''10.0.0.1'' 20 three_replicas))) ''d''
       = Some 4
   \<and> effects (snd (handle_warning ''10.0.0.1'' 20 three_replicas))
       = effects three_replicas
           @ [Timer_start 15 (Graceful_shutdown_before_shutoff [ActorHandle 1 ''10.0.0.1'']),
              Timer_start 20 (Rescale_after_warning_expires [(''d'', 1)])]"
  by (simp add: handle_warning_def Let_def all_replica_handles_def three_replicas_def
      BackendState_get_running_replica_handles_def actor_handle_matches_node_def
      count_replica_def set_target_replicas_def emit_def)

text \<open>
  Claim C2, amended. On a warning the replicas taken as affected are those
  \<^verbatim>\<open>_actor_handle_matches_node\<close> accepts, and the mock accepts exactly the first replica
  visited, whatever the node of the warning: when that replica's backend has a target,
  the target is incremented by exactly one, the timer at \<open>time_left - 5\<close> holds exactly
  that replica's handle, to which the drain signal goes when it fires, and the timer at
  \<open>time_left\<close> holds the increment. Without a running replica no target changes and both
  timers hold nothing.
\<close>

theorem handle_warning_first_replica:
  "(replica_items (all_replica_handles s) = [] \<longrightarrow>
      fst (handle_warning node_ip time_left s) = Inr ()
      \<and> target_replicas (backend_state (snd (handle_warning node_ip time_left s)))
          = target_replicas (backend_state s)
      \<and> effects (snd (handle_warning node_ip time_left s))
          = effects s @ [Timer_start (time_left - 5) (Graceful_shutdown_before_shutoff []),
                         Timer_start time_left (Rescale_after_warning_expires [])])
   \<and> (\<forall>backend h rest v.
        replica_items (all_replica_handles s) = (backend, h) # rest
        \<and> target_replicas (backend_state s) backend = Some v \<longrightarrow>
          fst (handle_warning node_ip time_left s) = Inr ()
          \<and> target_replicas (backend_state (snd (handle_warning node_ip time_left s)))
              = (target_replicas (backend_state s))(backend \<mapsto> v + 1)
          \<and> effects (snd (handle_warning node_ip time_left s))
              = effects s @ [Timer_start (time_left - 5) (Graceful_shutdown_before_shutoff [h]),
                             Timer_start time_left (Rescale_after_warning_expires [(backend, 1)])]
          \<and> graceful_shutdown_before_shutoff [h] s = emit (Drain_pending_queries h) s)"
  by (simp add: handle_warning_def scan_backends_mock Let_def set_target_replicas_def emit_def)

lemma three_replicas_items:
  "replica_items (all_replica_handles three_replicas) =
     [(''d'', ActorHandle 1 ''10.0.0.1''), (''d'', ActorHandle 2 ''10.0.0.1''),
      (''d'', ActorHandle 3 ''10.0.0.1'')]"
  by (simp add: replica_items_def all_replica_handles_def three_replicas_def
      BackendState_get_running_replica_handles_def)

theorem handle_warning_first_replica_witness:
  "fst (handle_warning ''10.0.0.1'' 20 three_replicas) = Inr ()
   \<and> target_replicas (backend_state (snd (handle_warning ''10.0.0.1'' 20 three_replicas))) ''d''
       = Some 4
   \<and> effects (snd (handle_warning ''10.0.0.1'' 20 three_replicas))
       = effects three_replicas
           @ [Timer_start 15 (Graceful_shutdown_before_shutoff [ActorHandle 1 ''10.0.0.1'']),
              Timer_start 20 (Rescale_after_warning_expires [(''d'', 1)])]"
proof -
  have t: "target_replicas (backend_state three_replicas) ''d'' = Some 3"
    by (simp add: three_replicas_def)
  from handle_warning_first_replica [of three_replicas "''10.0.0.1''" 20] three_replicas_items t
  show ?thesis by simp
qed

section \<open>The rollback of a preemption warning\<close>

lemma add_target_replicas_ok:
  "add_target_replicas tb m = (None, m1) \<Longrightarrow>
     fst ` set tb \<subseteq> dom m
     \<and> m1 = (\<lambda>k. map_option (\<lambda>v. v + sum_list (map snd (filter (\<lambda>p. fst p = k) tb))) (m k))"
proof (induction tb arbitrary: m)
  case Nil
  then show ?case by (auto simp: fun_eq_iff option.map_ident)
next
  case (Cons p tb)
  obtain b n where p: "p = (b, n)" by (cases p)
  from Cons.prems p obtain v where v: "m b = Some v"
    and r: "add_target_replicas tb (m(b \<mapsto> v + n)) = (None, m1)"
    by (auto split: option.splits)
  from Cons.IH [OF r] v show ?case
    by (auto simp: p fun_eq_iff split: if_splits)
qed

lemma sub_target_replicas_ok:
  "fst ` set tb \<subseteq> dom m \<Longrightarrow>
     sub_target_replicas tb m =
       (None, \<lambda>k. map_option (\<lambda>v. v - sum_list (map snd (filter (\<lambda>p. fst p = k) tb))) (m k))"
proof (induction tb arbitrary: m)
  case Nil
  then show ?case by (auto simp: fun_eq_iff option.map_ident)
next
  case (Cons p tb)
  obtain b n where p: "p = (b, n)" by (cases p)
  from Cons.prems p obtain v where v: "m b = Some v" by auto
  have "fst ` set tb \<subseteq> dom (m(b \<mapsto> v - n))" using Cons.prems by auto
  from Cons.IH [OF this]
  have "sub_target_replicas (p # tb) m =
      (None, \<lambda>k. map_option (\<lambda>v. v - sum_list (map snd (filter (\<lambda>p. fst p = k) tb)))
                 ((m(b \<mapsto> v - n)) k))"
    by (simp add: p v del: fun_upd_apply)
  moreover have "(\<lambda>k. map_option (\<lambda>v. v - sum_list (map snd (filter (\<lambda>p. fst p = k) tb)))
                 ((m(b \<mapsto> v - n)) k))
      = (\<lambda>k. map_option (\<lambda>v. v - sum_list (map snd (filter (\<lambda>p. fst p = k) (p # tb)))) (m k))"
    by (rule ext) (simp add: p v)
  ultimately show ?case by simp
qed

lemma sub_after_add:
  assumes "add_target_replicas tb m = (None, m1)"
  shows "sub_target_replicas tb m1 = (None, m)"
proof -
  from add_target_replicas_ok [OF assms]
  have k: "fst ` set tb \<subseteq> dom m"
    and m1: "m1 = (\<lambda>k. map_option (\<lambda>v. v + sum_list (map snd (filter (\<lambda>p. fst p = k) tb))) (m k))"
    by blast+
  have "fst ` set tb \<subseteq> dom m1" using k by (auto simp: m1 dom_def)
  from sub_target_replicas_ok [OF this] show ?thesis
    by (simp add: m1 fun_eq_iff option.map_comp comp_def option.map_ident)
qed

lemma handle_warning_raises:
  assumes "handle_warning node_ip time_left s = (Inl e, s1)"
  shows "s1 = s"
proof (cases "replica_items (all_replica_handles s)")
  case Nil
  with assms show ?thesis
    by (simp add: handle_warning_def scan_backends_mock Let_def)
next
  case (Cons p rest)
  obtain b h where p: "p = (b, h)" by (cases p)
  from assms Cons p show ?thesis
    by (cases "target_replicas (backend_state s) b")
      (simp_all add: handle_warning_def scan_backends_mock Let_def set_target_replicas_def)
qed

text \<open>
  Claim C6. When \<open>handle_warning\<close> returns, it has started, after the drain timer, a timer
  at \<open>time_left\<close> that holds the increments \<open>tb\<close> it has just added to the targets; when
  that timer fires on the state the warning left, it subtracts from every target
  what was added, and the targets, and the whole Workload State, are those before the
  warning. When \<open>handle_warning\<close> raises instead, it has changed nothing.
\<close>

theorem rollback_restores_targets:
  "(\<forall>s1. handle_warning node_ip time_left s = (Inr (), s1) \<longrightarrow>
      (\<exists>actors tb.
           effects s1 = effects s @ [Timer_start (time_left - 5) (Graceful_shutdown_before_shutoff actors),
                                     Timer_start time_left (Rescale_after_warning_expires tb)]
         \<and> (\<forall>b. target_replicas (backend_state s1) b
                  = map_option (\<lambda>v. v + sum_list (map snd (filter (\<lambda>p. fst p = b) tb)))
                      (target_replicas (backend_state s) b))
         \<and> (\<exists>s2. fire (Rescale_after_warning_expires tb) s1 = (Inr (), s2)
                \<and> (\<forall>b. target_replicas (backend_state s2) b
                      = map_option (\<lambda>v. v - sum_list (map snd (filter (\<lambda>p. fst p = b) tb)))
                          (target_replicas (backend_state s1) b))
                \<and> target_replicas (backend_state s2) = target_replicas (backend_state s)
                \<and> backend_state s2 = backend_state s
                \<and> endpoint_state s2 = endpoint_state s)))
   \<and> (\<forall>e s1. handle_warning node_ip time_left s = (Inl e, s1) \<longrightarrow> s1 = s)"
proof (intro conjI allI impI)
  fix s1
  assume a: "handle_warning node_ip time_left s = (Inr (), s1)"
  let ?a = "scan_backends node_ip (all_replica_handles s)
                \<lparr>target_backends = [], target_actors = [], mock_variable = True\<rparr>"
  obtain r m where am: "add_target_replicas (target_backends ?a) (target_replicas (backend_state s)) = (r, m)"
    by (cases "add_target_replicas (target_backends ?a) (target_replicas (backend_state s))")
  with a have r: "r = None"
    by (cases r) (auto simp: handle_warning_def Let_def)
  from a am r have s1: "s1 = emit (Timer_start time_left (Rescale_after_warning_expires (target_backends ?a)))
                (emit (Timer_start (time_left - 5)
                         (Graceful_shutdown_before_shutoff (target_actors ?a)))
                   (set_target_replicas m s))"
    by (simp add: handle_warning_def Let_def)
  from am r have sub: "sub_target_replicas (target_backends ?a) m = (None, target_replicas (backend_state s))"
    using sub_after_add by simp
  from am r have k: "fst ` set (target_backends ?a) \<subseteq> dom (target_replicas (backend_state s))"
    and m: "m = (\<lambda>k. map_option (\<lambda>v. v + sum_list (map snd (filter (\<lambda>p. fst p = k) (target_backends ?a)))) (target_replicas (backend_state s) k))"
    using add_target_replicas_ok by blast+
  have "fst ` set (target_backends ?a) \<subseteq> dom m" using k by (auto simp: m dom_def)
  from sub_target_replicas_ok [OF this] sub
  have d: "target_replicas (backend_state s) =
      (\<lambda>k. map_option (\<lambda>v. v - sum_list (map snd (filter (\<lambda>p. fst p = k) (target_backends ?a)))) (m k))"
    by simp
  have d': "target_replicas (backend_state s) b =
      map_option (\<lambda>v. v - sum_list (map snd (filter (\<lambda>p. fst p = b) (target_backends ?a)))) (m b)" for b
    using d by (rule fun_cong)
  have m': "m b = map_option (\<lambda>v. v + sum_list (map snd (filter (\<lambda>p. fst p = b) (target_backends ?a)))) (target_replicas (backend_state s) b)" for b
    using m by simp
  show "\<exists>actors tb.
           effects s1 = effects s @ [Timer_start (time_left - 5) (Graceful_shutdown_before_shutoff actors),
                                     Timer_start time_left (Rescale_after_warning_expires tb)]
         \<and> (\<forall>b. target_replicas (backend_state s1) b
                  = map_option (\<lambda>v. v + sum_list (map snd (filter (\<lambda>p. fst p = b) tb)))
                      (target_replicas (backend_state s) b))
         \<and> (\<exists>s2. fire (Rescale_after_warning_expires tb) s1 = (Inr (), s2)
                \<and> (\<forall>b. target_replicas (backend_state s2) b
                      = map_option (\<lambda>v. v - sum_list (map snd (filter (\<lambda>p. fst p = b) tb)))
                          (target_replicas (backend_state s1) b))
                \<and> target_replicas (backend_state s2) = target_replicas (backend_state s)
                \<and> backend_state s2 = backend_state s
                \<and> endpoint_state s2 = endpoint_state s)"
    apply (rule exI [of _ "target_actors ?a"])
    apply (rule exI [of _ "target_backends ?a"])
    using sub d' m'
    apply (simp add: s1 emit_def set_target_replicas_def rescale_after_warning_expires_def)
    done
next
  fix e s1
  assume "handle_warning node_ip time_left s = (Inl e, s1)"
  then show "s1 = s" by (rule handle_warning_raises)
qed

theorem rollback_restores_targets_witness:
  "\<exists>s1 s2. handle_warning ''10.0.0.1'' 20 three_replicas = (Inr (), s1)
     \<and> target_replicas (backend_state s1) ''d'' = Some 4
     \<and> fire (Rescale_after_warning_expires [(''d'', 1)]) s1 = (Inr (), s2)
     \<and> target_replicas (backend_state s2) ''d'' = Some 3"
proof -
  obtain s1 where s1: "handle_warning ''10.0.0.1'' 20 three_replicas = (Inr (), s1)"
    by (simp add: handle_warning_def Let_def all_replica_handles_def three_replicas_def
      BackendState_get_running_replica_handles_def actor_handle_matches_node_def
      count_replica_def)
  have e: "effects s1 = effects three_replicas
           @ [Timer_start 15 (Graceful_shutdown_before_shutoff [ActorHandle 1 ''10.0.0.1'']),
              Timer_start 20 (Rescale_after_warning_expires [(''d'', 1)])]"
    using s1
    by (auto simp add: handle_warning_def Let_def all_replica_handles_def three_replicas_def
      BackendState_get_running_replica_handles_def actor_handle_matches_node_def
      count_replica_def set_target_replicas_def emit_def)
  have t: "target_replicas (backend_state three_replicas) ''d'' = Some 3"
    by (simp add: three_replicas_def)
  from rollback_restores_targets [of "''10.0.0.1''" 20 three_replicas] s1 e t show ?thesis
    by auto
qed


section \<open>The control loop\<close>

lemma except_Exception_caught:
  "(\<forall>e. r = Some e \<longrightarrow> is_Exception e) \<Longrightarrow>
     except_Exception prefix r s =
       (Inr (), s\<lparr>effects := effects s @ (case r of None \<Rightarrow> [] | Some e \<Rightarrow> [Logger_error (prefix @ str_exn e)])\<rparr>)"
  by (cases r) (simp_all add: except_Exception_def emit_def)

lemma control_loop_tick_caught:
  assumes "\<forall>e. fst (http_update (http_state s)) = Some e \<longrightarrow> is_Exception e"
    and "\<forall>e. fst (backend_update (backend_state s)) = Some e \<longrightarrow> is_Exception e"
  shows "control_loop_tick http_update backend_update s =
     (Inr (),
      \<lparr>http_state = snd (http_update (http_state s)),
       endpoint_state = endpoint_state s,
       backend_state = snd (backend_update (backend_state s)),
       effects = effects s @ [Write_lock_acquire]
         @ (case fst (http_update (http_state s)) of None \<Rightarrow> []
            | Some e \<Rightarrow> [Logger_error (''Exception updating HTTP state: '' @ str_exn e)])
         @ (case fst (backend_update (backend_state s)) of None \<Rightarrow> []
            | Some e \<Rightarrow> [Logger_error (''Exception updating backend state: '' @ str_exn e)])
         @ [Write_lock_release, Asyncio_sleep CONTROL_LOOP_PERIOD_S]\<rparr>)"
proof -
  obtain r1 h where hu: "http_update (http_state s) = (r1, h)" by (cases "http_update (http_state s)")
  obtain r2 b where bu: "backend_update (backend_state s) = (r2, b)" by (cases "backend_update (backend_state s)")
  from assms hu bu have 1: "\<forall>e. r1 = Some e \<longrightarrow> is_Exception e" and 2: "\<forall>e. r2 = Some e \<longrightarrow> is_Exception e"
    by simp_all
  show ?thesis
    by (simp add: control_loop_tick_def control_loop_locked_def with_write_lock_def hu bu
        except_Exception_caught [OF 1] except_Exception_caught [OF 2] emit_def)
qed

text \<open>
  Claim C5. Over any number of passes in which the two updates raise nothing but
  instances of \<^verbatim>\<open>Exception\<close>, the loop is still running after the last pass, and every
  pass, from any state, takes the lock, applies the HTTP update, applies the backend
  update whether or not the HTTP update raised, logs each exception raised, releases the
  lock and sleeps for the period.
\<close>

theorem control_loop_isolates_failures:
  assumes "\<forall>(http_update, backend_update) \<in> set passes.
             raises_only_Exception http_update \<and> raises_only_Exception backend_update"
  shows "run_control_loop passes s
           = (None, fold (\<lambda>(http_update, backend_update) s.
                            snd (control_loop_tick http_update backend_update s)) passes s)
       \<and> (\<forall>(http_update, backend_update) \<in> set passes. \<forall>s.
            control_loop_tick http_update backend_update s =
              (Inr (),
               \<lparr>http_state = snd (http_update (http_state s)),
                endpoint_state = endpoint_state s,
                backend_state = snd (backend_update (backend_state s)),
                effects = effects s @ [Write_lock_acquire]
                  @ (case fst (http_update (http_state s)) of None \<Rightarrow> []
                     | Some e \<Rightarrow> [Logger_error (''Exception updating HTTP state: '' @ str_exn e)])
                  @ (case fst (backend_update (backend_state s)) of None \<Rightarrow> []
                     | Some e \<Rightarrow> [Logger_error (''Exception updating backend state: '' @ str_exn e)])
                  @ [Write_lock_release, Asyncio_sleep CONTROL_LOOP_PERIOD_S]\<rparr>))"
proof
  show "run_control_loop passes s
           = (None, fold (\<lambda>(http_update, backend_update) s.
                            snd (control_loop_tick http_update backend_update s)) passes s)"
    using assms
  proof (induction passes arbitrary: s)
    case Nil
    then show ?case by simp
  next
    case (Cons p passes)
    obtain hu bu where p: "p = (hu, bu)" by (cases p)
    from Cons.prems p have ok: "raises_only_Exception hu" "raises_only_Exception bu" by auto
    then obtain s1 where t: "control_loop_tick hu bu s = (Inr (), s1)"
      using control_loop_tick_caught [of hu s bu] by (simp add: raises_only_Exception_def)
    from Cons.prems have "\<forall>(http_update, backend_update) \<in> set passes.
             raises_only_Exception http_update \<and> raises_only_Exception backend_update" by simp
    from Cons.IH [OF this] t show ?case
      by (simp add: p)
  qed
next
  show "\<forall>(http_update, backend_update) \<in> set passes. \<forall>s.
            control_loop_tick http_update backend_update s =
              (Inr (),
               \<lparr>http_state = snd (http_update (http_state s)),
                endpoint_state = endpoint_state s,
                backend_state = snd (backend_update (backend_state s)),
                effects = effects s @ [Write_lock_acquire]
                  @ (case fst (http_update (http_state s)) of None \<Rightarrow> []
                     | Some e \<Rightarrow> [Logger_error (''Exception updating HTTP state: '' @ str_exn e)])
                  @ (case fst (backend_update (backend_state s)) of None \<Rightarrow> []
                     | Some e \<Rightarrow> [Logger_error (''Exception updating backend state: '' @ str_exn e)])
                  @ [Write_lock_release, Asyncio_sleep CONTROL_LOOP_PERIOD_S]\<rparr>)"
    using assms control_loop_tick_caught
    by (fastforce simp: raises_only_Exception_def)
qed

theorem control_loop_isolates_failures_witness:
  "run_control_loop [(http_update_raises, backend_update_returns),
                     (http_update_returns, backend_update_raises)] init
     = (None,
        \<lparr>http_state = \<lparr>proxy_actors = [(''node1'', ActorHandle 7 ''10.0.0.1'')]\<rparr>,
         endpoint_state = \<lparr>endpoints = []\<rparr>,
         backend_state =
           \<lparr>backends = [], target_replicas = Map.empty,
            running_replica_handles = [(''d'', [(''d#1'', ActorHandle 1 ''10.0.0.1'')])],
            goals_issued = 0\<rparr>,
         effects =
           [Write_lock_acquire,
            Logger_error ''Exception updating HTTP state: proxy unreachable'',
            Write_lock_release, Asyncio_sleep CONTROL_LOOP_PERIOD_S,
            Write_lock_acquire,
            Logger_error (''Exception updating backend state: '' @ quoted ''d''),
            Write_lock_release, Asyncio_sleep CONTROL_LOOP_PERIOD_S]\<rparr>)"
proof -
  have h: "\<forall>(http_update, backend_update) \<in>
        set [(http_update_raises, backend_update_returns), (http_update_returns, backend_update_raises)].
      raises_only_Exception http_update \<and> raises_only_Exception backend_update"
    by (simp add: raises_only_Exception_def http_update_raises_def http_update_returns_def
        backend_update_raises_def backend_update_returns_def)
  have t1: "snd (control_loop_tick http_update_raises backend_update_returns s) =
      \<lparr>http_state = http_state s, endpoint_state = endpoint_state s,
       backend_state = (backend_state s)\<lparr>running_replica_handles := [(''d'', [(''d#1'', ActorHandle 1 ''10.0.0.1'')])]\<rparr>,
       effects = effects s @ [Write_lock_acquire,
            Logger_error ''Exception updating HTTP state: proxy unreachable'',
            Write_lock_release, Asyncio_sleep CONTROL_LOOP_PERIOD_S]\<rparr>" for s
    by (simp add: control_loop_tick_def control_loop_locked_def with_write_lock_def
        except_Exception_def emit_def http_update_raises_def backend_update_returns_def)
  have t2: "snd (control_loop_tick http_update_returns backend_update_raises s) =
      \<lparr>http_state = (http_state s)\<lparr>proxy_actors := [(''node1'', ActorHandle 7 ''10.0.0.1'')]\<rparr>,
       endpoint_state = endpoint_state s,
       backend_state = backend_state s,
       effects = effects s @ [Write_lock_acquire,
            Logger_error (''Exception updating backend state: '' @ quoted ''d''),
            Write_lock_release, Asyncio_sleep CONTROL_LOOP_PERIOD_S]\<rparr>" for s
    by (simp add: control_loop_tick_def control_loop_locked_def with_write_lock_def
        except_Exception_def emit_def http_update_returns_def backend_update_raises_def)
  from control_loop_isolates_failures [OF h, of init]
  have r: "run_control_loop [(http_update_raises, backend_update_returns),
                     (http_update_returns, backend_update_raises)] init
      = (None, fold (\<lambda>(http_update, backend_update) s.
                            snd (control_loop_tick http_update backend_update s))
                 [(http_update_raises, backend_update_returns),
                     (http_update_returns, backend_update_raises)] init)"
    by blast
  show ?thesis
    unfolding r by (simp add: t1 t2 init_def)
qed

section \<open>The route wait of create_endpoint\<close>

text \<open>
  Claim C7. When every key of the traffic dictionary is a registered backend,
  \<open>create_endpoint\<close> takes the lock, records the endpoint and releases the lock; only then
  does it wait for the route, with the fixed timeout of 30 seconds. Whether the wait
  returns or raises decides the outcome of the call and nothing else: the endpoint is
  recorded with its info and policy either way, and the Workload State is untouched.
\<close>

theorem create_endpoint_wait_after_commit:
  assumes "\<forall>b. has_key b td \<longrightarrow> BackendState_get_backend (backend_state s) b \<noteq> None"
  shows "fst (create_endpoint ensure endpoint td rt methods s)
           = (case fst (ensure endpoint 30 (http_state s)) of Some e \<Rightarrow> Inl e | None \<Rightarrow> Inr ())
       \<and> effects (snd (create_endpoint ensure endpoint td rt methods s))
           = effects s @ [Write_lock_acquire, Write_lock_release, Ensure_http_route_exists endpoint 30]
       \<and> endpoint_state (snd (create_endpoint ensure endpoint td rt methods s))
           = EndpointState_create_endpoint endpoint
               \<lparr>http_methods = methods, route = rt, python_methods = None, legacy = None\<rparr>
               (new_TrafficPolicy td) (endpoint_state s)
       \<and> map_of (endpoints (endpoint_state (snd (create_endpoint ensure endpoint td rt methods s))))
           endpoint
           = Some (\<lparr>http_methods = methods, route = rt, python_methods = None, legacy = None\<rparr>,
                   \<lparr>traffic_dict = td, shadow_dict = []\<rparr>)
       \<and> has_key endpoint (get_all_endpoints (snd (create_endpoint ensure endpoint td rt methods s)))
       \<and> backend_state (snd (create_endpoint ensure endpoint td rt methods s)) = backend_state s
       \<and> http_state (snd (create_endpoint ensure endpoint td rt methods s))
           = snd (ensure endpoint 30 (http_state s))"
proof -
  from assms have v: "validate_traffic_dict (backend_state s) td = None"
    by (simp add: validate_traffic_dict_None)
  have k: "has_key endpoint (EndpointState_get_endpoints
      (EndpointState_create_endpoint endpoint info policy es))" for info policy es
    by (simp add: has_key_def EndpointState_get_endpoints_def EndpointState_create_endpoint_def
        dom_update image_image case_prod_beta image_Un flip: image_comp)
  show ?thesis
    using k
    by (simp add: create_endpoint_def create_endpoint_locked_def with_write_lock_def emit_def v
        case_prod_beta get_all_endpoints_def EndpointState_create_endpoint_def update_conv
        new_TrafficPolicy_def split: option.splits)
qed

theorem create_endpoint_wait_after_commit_witness:
  "fst (create_endpoint ensure_timed_out ''foo'' [(''d'', 1)] (Some ''/foo'') (Http_methods [''GET''])
          deployed) = Inl (Exception ''TimeoutError'')
   \<and> effects (snd (create_endpoint ensure_timed_out ''foo'' [(''d'', 1)] (Some ''/foo'')
          (Http_methods [''GET'']) deployed))
       = effects deployed @ [Write_lock_acquire, Write_lock_release, Ensure_http_route_exists ''foo'' 30]
   \<and> has_key ''foo'' (get_all_endpoints (snd (create_endpoint ensure_timed_out ''foo''
          [(''d'', 1)] (Some ''/foo'') (Http_methods [''GET'']) deployed)))"
proof -
  have h: "\<forall>b. has_key b [(''d'', 1::real)] \<longrightarrow> BackendState_get_backend (backend_state deployed) b \<noteq> None"
    by (simp add: has_key_def BackendState_get_backend_def deployed_eq)
  from create_endpoint_wait_after_commit [OF h, of ensure_timed_out "''foo''" "Some ''/foo''"
      "Http_methods [''GET'']"]
  show ?thesis by (simp add: ensure_timed_out_def)
qed


end
